theory Spec2Isabelle
  imports Complex_Main "HOL-Library.Sublist"
begin

section \<open>Python values, exceptions and user notices\<close>

text \<open>
  The program is a single Streamlit script, \<^verbatim>\<open>movie-recommender.py\<close>. Its values are
  Python objects that come out of \<^verbatim>\<open>json.loads\<close> or out of the widgets, so the script
  level of the model is dynamically typed: a \<open>json\<close> value is a Python object
  (\<open>JNull\<close> is \<^verbatim>\<open>None\<close>, \<open>JDict\<close> holds the items of a \<^verbatim>\<open>dict\<close> in insertion order,
  a later binding of a key overriding an earlier one).
  Strings are sequences of code points below 256. Finite floats are exact reals;
  the three non-finite floats that \<^verbatim>\<open>json.loads\<close> accepts have constructors of their own.
  An exception is a value \<open>Inl e\<close> of the sum type \<open>error + 'a\<close>.
\<close>

datatype error =
  NameError | AttributeError | TypeError | KeyError | IndexError | ValueError
  | JSONDecodeError | ProviderError

datatype json =
  JNull | JBool bool | JInt int | JFloat real | JNaN | JInfinity bool
  | JStr string | JList "json list" | JDict "(string \<times> json) list"

datatype notice = ErrorNotice string | InfoNotice string | WarningNotice string

definition bind_e :: "error + 'a \<Rightarrow> ('a \<Rightarrow> error + 'b) \<Rightarrow> error + 'b" where
  "bind_e x f = (case x of Inl e \<Rightarrow> Inl e | Inr v \<Rightarrow> f v)"

text \<open>Truth value of an object, as \<^verbatim>\<open>if x\<close>, \<^verbatim>\<open>not x\<close>, \<^verbatim>\<open>x and y\<close> test it.\<close>

fun truthy :: "json \<Rightarrow> bool" where
  "truthy JNull = False"
| "truthy (JBool b) = b"
| "truthy (JInt n) = (n \<noteq> 0)"
| "truthy (JFloat r) = (r \<noteq> 0)"
| "truthy JNaN = True"
| "truthy (JInfinity _) = True"
| "truthy (JStr s) = (s \<noteq> [])"
| "truthy (JList xs) = (xs \<noteq> [])"
| "truthy (JDict kvs) = (kvs \<noteq> [])"

text \<open>\<^verbatim>\<open>d.get(k)\<close>: only a dict has the method; a missing key gives \<^verbatim>\<open>None\<close>.\<close>

definition dget :: "(string \<times> json) list \<Rightarrow> string \<Rightarrow> json" where
  "dget kvs k = (case map_of (rev kvs) k of None \<Rightarrow> JNull | Some x \<Rightarrow> x)"

fun py_get :: "json \<Rightarrow> string \<Rightarrow> error + json" where
  "py_get (JDict kvs) k = Inr (dget kvs k)"
| "py_get _ k = Inl AttributeError"

text \<open>\<^verbatim>\<open>x[k]\<close> with a string key, and \<^verbatim>\<open>x[0]\<close>. The keys of a dict that came out of JSON are
  strings, so \<^verbatim>\<open>d[0]\<close> is always a \<^verbatim>\<open>KeyError\<close>.\<close>

fun py_item_str :: "json \<Rightarrow> string \<Rightarrow> error + json" where
  "py_item_str (JDict kvs) k = (case map_of (rev kvs) k of None \<Rightarrow> Inl KeyError | Some v \<Rightarrow> Inr v)"
| "py_item_str _ k = Inl TypeError"

fun py_item0 :: "json \<Rightarrow> error + json" where
  "py_item0 (JList xs) = (case xs of [] \<Rightarrow> Inl IndexError | x # _ \<Rightarrow> Inr x)"
| "py_item0 (JStr s) = (case s of [] \<Rightarrow> Inl IndexError | c # _ \<Rightarrow> Inr (JStr [c]))"
| "py_item0 (JDict kvs) = Inl KeyError"
| "py_item0 _ = Inl TypeError"

section \<open>String operations of the standard library\<close>

definition is_py_space :: "char \<Rightarrow> bool" where
  "is_py_space c = (c \<in> set [CHR 0x09, CHR 0x0A, CHR 0x0B, CHR 0x0C, CHR 0x0D,
     CHR 0x1C, CHR 0x1D, CHR 0x1E, CHR 0x1F, CHR 0x20, CHR 0x85, CHR 0xA0])"

definition py_strip :: "string \<Rightarrow> string" where
  "py_strip s = rev (dropWhile is_py_space (rev (dropWhile is_py_space s)))"

text \<open>\<^verbatim>\<open>sub in s\<close> for strings.\<close>

fun py_contains :: "string \<Rightarrow> string \<Rightarrow> bool" where
  "py_contains sub [] = (sub = [])"
| "py_contains sub (c # cs) = (prefix sub (c # cs) \<or> py_contains sub cs)"

text \<open>\<^verbatim>\<open>s.split(sep)\<close>: the pieces between the occurrences of \<open>sep\<close>, found from the left
  without overlap. Both separators of the program are non-empty literals (Python raises
  \<^verbatim>\<open>ValueError\<close> on an empty one, which the program never passes).\<close>

function py_split_from :: "string \<Rightarrow> string \<Rightarrow> string \<Rightarrow> string list" where
  "py_split_from sep cur [] = [cur]"
| "py_split_from sep cur (c # cs) =
     (if sep \<noteq> [] \<and> prefix sep (c # cs)
      then cur # py_split_from sep [] (drop (length sep) (c # cs))
      else py_split_from sep (cur @ [c]) cs)"
  by pat_completeness auto
termination
  by (relation "measure (\<lambda>(sep, cur, s). length s)") (auto simp: neq_Nil_conv)

definition py_split :: "string \<Rightarrow> string \<Rightarrow> string list" where
  "py_split sep s = py_split_from sep [] s"

section \<open>The decoder \<^verbatim>\<open>json.loads\<close>\<close>

text \<open>
  A model of the standard library's decoder in its default (strict) mode: JSON whitespace,
  the literals, numbers (an integer literal gives \<open>JInt\<close>, one with a fraction or an
  exponent gives \<open>JFloat\<close>), strings with their escapes, arrays and objects, and the
  \<^verbatim>\<open>NaN\<close>, \<^verbatim>\<open>Infinity\<close>, \<^verbatim>\<open>-Infinity\<close> extensions. \<open>None\<close> is \<^verbatim>\<open>JSONDecodeError\<close>.
  The recursion runs on a fuel list; \<open>json_loads\<close> passes one of more than twice the
  length of its input, and every nested call follows a consumed character.
\<close>

definition dq :: char where "dq = CHR 0x22"
definition bs :: char where "bs = CHR 0x5C"

definition is_json_ws :: "char \<Rightarrow> bool" where
  "is_json_ws c = (c \<in> set [CHR 0x20, CHR 0x09, CHR 0x0A, CHR 0x0D])"

definition skip_ws :: "string \<Rightarrow> string" where
  "skip_ws s = dropWhile is_json_ws s"

definition is_digit :: "char \<Rightarrow> bool" where
  "is_digit c = (48 \<le> (of_char c :: nat) \<and> (of_char c :: nat) \<le> 57)"

definition digit_val :: "char \<Rightarrow> int" where
  "digit_val c = int (of_char c) - 48"

definition digits_val :: "string \<Rightarrow> int" where
  "digits_val ds = foldl (\<lambda>a c. 10 * a + digit_val c) 0 ds"

definition hex_val :: "char \<Rightarrow> nat option" where
  "hex_val c =
     (let n = (of_char c :: nat) in
      if 48 \<le> n \<and> n \<le> 57 then Some (n - 48)
      else if 65 \<le> n \<and> n \<le> 70 then Some (n - 55)
      else if 97 \<le> n \<and> n \<le> 102 then Some (n - 87)
      else None)"

fun hex4 :: "string \<Rightarrow> nat option" where
  "hex4 [a, b, c, d] =
     (case (hex_val a, hex_val b, hex_val c, hex_val d) of
        (Some w, Some x, Some y, Some z) \<Rightarrow> Some (((w * 16 + x) * 16 + y) * 16 + z)
      | _ \<Rightarrow> None)"
| "hex4 _ = None"

definition unescape :: "char \<Rightarrow> char option" where
  "unescape e =
     (if e = dq then Some dq
      else if e = bs then Some bs
      else if e = CHR ''/'' then Some CHR ''/''
      else if e = CHR ''b'' then Some (CHR 0x08)
      else if e = CHR ''f'' then Some (CHR 0x0C)
      else if e = CHR ''n'' then Some (CHR 0x0A)
      else if e = CHR ''r'' then Some (CHR 0x0D)
      else if e = CHR ''t'' then Some (CHR 0x09)
      else None)"

text \<open>The characters of a string literal after its opening quote. A \<^verbatim>\<open>\u\<close> escape above
  \<open>FF\<close> is outside the 8-bit characters of the model and is truncated.\<close>

fun scan_string :: "string \<Rightarrow> string \<Rightarrow> (string \<times> string) option" where
  "scan_string acc [] = None"
| "scan_string acc (c # cs) =
     (if c = dq then Some (acc, cs)
      else if c = bs then
        (case cs of
           [] \<Rightarrow> None
         | e # r \<Rightarrow>
             if e = CHR ''u'' then
               (case hex4 (take 4 r) of
                  None \<Rightarrow> None
                | Some n \<Rightarrow> scan_string (acc @ [char_of n]) (drop 4 r))
             else
               (case unescape e of
                  None \<Rightarrow> None
                | Some x \<Rightarrow> scan_string (acc @ [x]) r))
      else if (of_char c :: nat) < 32 then None
      else scan_string (acc @ [c]) cs)"

text \<open>The number pattern \<^verbatim>\<open>(-?(?:0|[1-9][0-9]*))(\.[0-9]+)?([eE][-+]?[0-9]+)?\<close>.\<close>

definition scan_frac :: "string \<Rightarrow> string \<times> string" where
  "scan_frac s =
     (case s of
        [] \<Rightarrow> ([], s)
      | c # t \<Rightarrow>
          if c = CHR ''.'' \<and> takeWhile is_digit t \<noteq> []
          then (takeWhile is_digit t, dropWhile is_digit t) else ([], s))"

definition scan_exp :: "string \<Rightarrow> int option \<times> string" where
  "scan_exp s =
     (case s of
        [] \<Rightarrow> (None, s)
      | c # t \<Rightarrow>
          if c = CHR ''e'' \<or> c = CHR ''E'' then
            (let (sg, u) =
               (case t of
                  [] \<Rightarrow> (1, t)
                | d # t' \<Rightarrow> if d = CHR ''+'' then (1, t') else if d = CHR ''-'' then (- 1, t') else (1, t))
             in if takeWhile is_digit u = [] then (None, s)
                else (Some (sg * digits_val (takeWhile is_digit u)), dropWhile is_digit u))
          else (None, s))"

definition scale10 :: "int \<Rightarrow> int \<Rightarrow> real" where
  "scale10 m e = (if 0 \<le> e then of_int m * 10 ^ nat e else of_int m / 10 ^ nat (- e))"

definition parse_number :: "string \<Rightarrow> (json \<times> string) option" where
  "parse_number s =
     (let (sg, s1) = (case s of [] \<Rightarrow> (1, s) | c # t \<Rightarrow> if c = CHR ''-'' then (- 1, t) else (1, s));
          ds = takeWhile is_digit s1
      in if ds = [] then None
         else
           (let ip = (if hd ds = CHR ''0'' then [CHR ''0''] else ds);
                (fr, s3) = scan_frac (drop (length ip) s1);
                (ex, s4) = scan_exp s3
            in if fr = [] \<and> ex = None then Some (JInt (sg * digits_val ip), s4)
               else Some (JFloat (scale10 (sg * digits_val (ip @ fr))
                            ((case ex of None \<Rightarrow> 0 | Some e \<Rightarrow> e) - int (length fr))), s4)))"

fun parse_value :: "string \<Rightarrow> string \<Rightarrow> (json \<times> string) option"
  and parse_elems :: "string \<Rightarrow> json list \<Rightarrow> string \<Rightarrow> (json \<times> string) option"
  and parse_members :: "string \<Rightarrow> (string \<times> json) list \<Rightarrow> string \<Rightarrow> (json \<times> string) option"
where
  "parse_value [] s = None"
| "parse_value (_ # fuel) s =
     (case s of
        [] \<Rightarrow> None
      | c # cs \<Rightarrow>
          if c = dq then map_option (\<lambda>(x, r). (JStr x, r)) (scan_string [] cs)
          else if c = CHR ''{'' then
            (if prefix ''}'' (skip_ws cs) then Some (JDict [], drop 1 (skip_ws cs))
             else parse_members fuel [] (skip_ws cs))
          else if c = CHR ''['' then
            (if prefix '']'' (skip_ws cs) then Some (JList [], drop 1 (skip_ws cs))
             else parse_elems fuel [] (skip_ws cs))
          else if prefix ''null'' s then Some (JNull, drop 4 s)
          else if prefix ''true'' s then Some (JBool True, drop 4 s)
          else if prefix ''false'' s then Some (JBool False, drop 5 s)
          else
            (case parse_number s of
               Some r \<Rightarrow> Some r
             | None \<Rightarrow>
                 if prefix ''NaN'' s then Some (JNaN, drop 3 s)
                 else if prefix ''Infinity'' s then Some (JInfinity False, drop 8 s)
                 else if prefix ''-Infinity'' s then Some (JInfinity True, drop 9 s)
                 else None))"
| "parse_elems [] acc s = None"
| "parse_elems (_ # fuel) acc s =
     (case parse_value fuel s of
        None \<Rightarrow> None
      | Some (v, r) \<Rightarrow>
          if prefix '']'' (skip_ws r) then Some (JList (acc @ [v]), drop 1 (skip_ws r))
          else if prefix '','' (skip_ws r)
          then parse_elems fuel (acc @ [v]) (skip_ws (drop 1 (skip_ws r)))
          else None)"
| "parse_members [] acc s = None"
| "parse_members (_ # fuel) acc s =
     (case s of
        [] \<Rightarrow> None
      | c # cs \<Rightarrow>
          if c \<noteq> dq then None
          else
            (case scan_string [] cs of
               None \<Rightarrow> None
             | Some (k, r) \<Rightarrow>
                 if \<not> prefix '':'' (skip_ws r) then None
                 else
                   (case parse_value fuel (skip_ws (drop 1 (skip_ws r))) of
                      None \<Rightarrow> None
                    | Some (v, r2) \<Rightarrow>
                        if prefix ''}'' (skip_ws r2)
                        then Some (JDict (acc @ [(k, v)]), drop 1 (skip_ws r2))
                        else if prefix '','' (skip_ws r2)
                        then parse_members fuel (acc @ [(k, v)]) (skip_ws (drop 1 (skip_ws r2)))
                        else None)))"

definition json_loads :: "string \<Rightarrow> json option" where
  "json_loads s =
     (case parse_value (CHR ''.'' # s @ s) (skip_ws s) of
        None \<Rightarrow> None
      | Some (v, r) \<Rightarrow> if skip_ws r = [] then Some v else None)"

section \<open>The query interpreter \<^verbatim>\<open>gpt_parse_prompt\<close>\<close>

text \<open>
  Lines 57 to 63 call the model endpoint and decode the response body; both happen before
  the \<^verbatim>\<open>try\<close>. Their outcome is the argument \<open>served\<close>: \<open>Inl e\<close> when either raises,
  \<open>Inr result\<close> when \<^verbatim>\<open>result\<close> is bound. The decoder used on the model's text (line 67) is
  the argument \<open>loads\<close>, \<open>None\<close> being \<^verbatim>\<open>JSONDecodeError\<close>.
\<close>

definition fence_json :: string where "fence_json = ''```json''"
definition fence :: string where "fence = ''```''"

text \<open>Line 66 on a string \<^verbatim>\<open>text\<close>.\<close>

definition gpt_json_text :: "string \<Rightarrow> string" where
  "gpt_json_text text =
     (if py_contains fence_json text
      then hd (py_split fence (last (py_split fence_json (py_strip text))))
      else text)"

text \<open>Lines 66 and 67 on any object: a \<^verbatim>\<open>text\<close> that is not a string raises inside the
  \<^verbatim>\<open>try\<close>, at the membership test, at \<^verbatim>\<open>strip\<close> or in the decoder.\<close>

fun extract_and_load :: "(string \<Rightarrow> json option) \<Rightarrow> json \<Rightarrow> error + json" where
  "extract_and_load loads (JStr text) =
     (case loads (gpt_json_text text) of None \<Rightarrow> Inl JSONDecodeError | Some v \<Rightarrow> Inr v)"
| "extract_and_load loads (JList xs) =
     (if JStr fence_json \<in> set xs then Inl AttributeError else Inl TypeError)"
| "extract_and_load loads (JDict kvs) =
     (if fence_json \<in> fst ` set kvs then Inl AttributeError else Inl TypeError)"
| "extract_and_load loads _ = Inl TypeError"

text \<open>The message of \<^verbatim>\<open>st.error\<close> at line 69, without its leading pictograph.\<close>

definition parse_error_notice :: notice where
  "parse_error_notice = ErrorNotice ''Claude response couldn't be parsed. Try rewording your query.''"

text \<open>Line 65: \<^verbatim>\<open>result["content"][0]["text"]\<close>.\<close>

definition response_text :: "json \<Rightarrow> error + json" where
  "response_text result =
     bind_e (py_item_str result ''content'') (\<lambda>content.
     bind_e (py_item0 content) (\<lambda>first.
     py_item_str first ''text''))"

definition try_block :: "(string \<Rightarrow> json option) \<Rightarrow> json \<Rightarrow> error + json" where
  "try_block loads result = bind_e (response_text result) (extract_and_load loads)"

definition gpt_parse_prompt ::
  "(string \<Rightarrow> json option) \<Rightarrow> error + json \<Rightarrow> (error + json) \<times> notice list" where
  "gpt_parse_prompt loads served =
     (case served of
        Inl e \<Rightarrow> (Inl e, [])
      | Inr result \<Rightarrow>
          (case try_block loads result of
             Inl _ \<Rightarrow> (Inr (JDict []), [parse_error_notice])
           | Inr v \<Rightarrow> (Inr v, [])))"

section \<open>The discovery engine \<^verbatim>\<open>discover_movies\<close>\<close>

text \<open>
  The filter arguments and the provider's records have the types of the data model:
  a filter is \<open>None\<close> when unset; a movie record holds the fields that the engine reads,
  \<open>None\<close> when the key is missing. The genre catalog is the value of \<^verbatim>\<open>get_genre_ids()\<close>,
  which \<^verbatim>\<open>st.cache_data\<close> memoises: the items of a dict from genre name to genre id.
  \<^verbatim>\<open>API_KEY\<close> is \<open>None\<close> when the environment variable is absent.
  One page request, \<^verbatim>\<open>requests.get(...).json().get("results", [])\<close>, is the argument \<open>fetch\<close>,
  from the parameters sent to the records returned or the exception raised.
\<close>

type_synonym catalog = "(string \<times> int) list"

record movie =
  movie_id :: int
  title :: string
  release_date :: "string option"
  genre_ids :: "int list option"
  popularity :: "real option"

record filters =
  genres :: "string list"
  year_start :: "int option"
  year_end :: "int option"
  min_score :: "real option"
  certification :: "string option"
  min_runtime :: "int option"
  max_runtime :: "int option"
  include_adult :: bool

type_synonym params = "(string \<times> json) list"
type_synonym fetch = "params \<Rightarrow> error + movie list"

fun str_nat :: "nat \<Rightarrow> string" where
  "str_nat n = (if n < 10 then [char_of (48 + n)] else str_nat (n div 10) @ [char_of (48 + n mod 10)])"

declare str_nat.simps [simp del]

definition py_str_int :: "int \<Rightarrow> string" where
  "py_str_int i = (if i < 0 then CHR ''-'' # str_nat (nat (- i)) else str_nat (nat i))"

fun py_join :: "string \<Rightarrow> string list \<Rightarrow> string" where
  "py_join sep [] = []"
| "py_join sep [x] = x"
| "py_join sep (x # y # ys) = x @ sep @ py_join sep (y # ys)"

text \<open>Line 81: the ids of the requested names that the catalog knows, as strings.\<close>

definition resolve_genre_ids :: "catalog \<Rightarrow> string list \<Rightarrow> string list" where
  "resolve_genre_ids cat gs =
     concat (map (\<lambda>g. case map_of cat g of None \<Rightarrow> [] | Some i \<Rightarrow> [py_str_int i]) gs)"

definition opt_json :: "('a \<Rightarrow> json) \<Rightarrow> 'a option \<Rightarrow> json" where
  "opt_json c x = (case x of None \<Rightarrow> JNull | Some v \<Rightarrow> c v)"

text \<open>Lines 83 to 94.\<close>

definition base_params :: "string option \<Rightarrow> catalog \<Rightarrow> filters \<Rightarrow> params" where
  "base_params api_key cat f =
     [(''api_key'', opt_json JStr api_key),
      (''language'', JStr ''en-US''),
      (''sort_by'', JStr ''popularity.desc''),
      (''include_adult'', JBool (include_adult f)),
      (''with_genres'',
         if resolve_genre_ids cat (genres f) \<noteq> []
         then JStr (py_join '','' (resolve_genre_ids cat (genres f))) else JNull),
      (''vote_average.gte'', opt_json JFloat (min_score f)),
      (''certification_country'', JStr ''US''),
      (''certification.lte'', opt_json JStr (certification f)),
      (''with_runtime.gte'', opt_json JInt (min_runtime f)),
      (''with_runtime.lte'', opt_json JInt (max_runtime f))]"

text \<open>Lines 98 and 99: the page is stored under \<^verbatim>\<open>"page"\<close>, the last key of the dict, and
  the entries whose value is \<^verbatim>\<open>None\<close> are left out of the request.\<close>

definition request_params :: "params \<Rightarrow> int \<Rightarrow> params" where
  "request_params bp page = filter (\<lambda>(k, v). v \<noteq> JNull) (bp @ [(''page'', JInt page)])"

text \<open>Lines 96 to 100. The loop has no \<^verbatim>\<open>try\<close>: an exception of a page request leaves it.
  The second component lists the requests made.\<close>

fun fetch_pages ::
  "fetch \<Rightarrow> params \<Rightarrow> int list \<Rightarrow> movie list \<Rightarrow> (error + movie list) \<times> params list" where
  "fetch_pages fetch bp [] results = (Inr results, [])"
| "fetch_pages fetch bp (page # pages) results =
     (case fetch (request_params bp page) of
        Inl e \<Rightarrow> (Inl e, [request_params bp page])
      | Inr ms \<Rightarrow>
          (case fetch_pages fetch bp pages (results @ ms) of
             (r, reqs) \<Rightarrow> (r, request_params bp page # reqs)))"

text \<open>\<^verbatim>\<open>int(s)\<close> on a string: surrounding whitespace, an optional sign, decimal digits with
  single underscores between them; \<open>None\<close> is \<^verbatim>\<open>ValueError\<close>. The whitespace that \<^verbatim>\<open>int\<close>
  skips is not that of \<^verbatim>\<open>str.strip\<close>: the separators U+001C to U+001F are not skipped, so
  that \<^verbatim>\<open>int("\x1c215")\<close> raises.\<close>

definition is_int_space :: "char \<Rightarrow> bool" where
  "is_int_space c = (c \<in> set [CHR 0x09, CHR 0x0A, CHR 0x0B, CHR 0x0C, CHR 0x0D,
     CHR 0x20, CHR 0x85, CHR 0xA0])"

definition int_strip :: "string \<Rightarrow> string" where
  "int_strip s = rev (dropWhile is_int_space (rev (dropWhile is_int_space s)))"

fun digits_ok :: "string \<Rightarrow> bool" where
  "digits_ok [] = False"
| "digits_ok [c] = is_digit c"
| "digits_ok (c # d # r) =
     (is_digit c \<and> (if d = CHR ''_'' then digits_ok r else digits_ok (d # r)))"

definition py_int :: "string \<Rightarrow> int option" where
  "py_int s =
     (let t = int_strip s;
          (sg, u) = (case t of [] \<Rightarrow> (1, t)
                     | c # r \<Rightarrow> if c = CHR ''-'' then (- 1, r) else if c = CHR ''+'' then (1, r) else (1, t))
      in if digits_ok u then Some (sg * digits_val (filter is_digit u)) else None)"

text \<open>Lines 102 and 103. The condition of the comprehension on one movie:\<close>

definition year_keep :: "int \<Rightarrow> int \<Rightarrow> movie \<Rightarrow> error + bool" where
  "year_keep ys ye m =
     (case release_date m of
        None \<Rightarrow> Inr False
      | Some d \<Rightarrow>
          if d = [] then Inr False
          else (case py_int (take 4 d) of
                  None \<Rightarrow> Inl ValueError
                | Some y \<Rightarrow> Inr (ys \<le> y \<and> y \<le> ye)))"

fun filter_e :: "('a \<Rightarrow> error + bool) \<Rightarrow> 'a list \<Rightarrow> error + 'a list" where
  "filter_e p [] = Inr []"
| "filter_e p (x # xs) =
     (case p x of
        Inl e \<Rightarrow> Inl e
      | Inr b \<Rightarrow>
          (case filter_e p xs of
             Inl e \<Rightarrow> Inl e
           | Inr ys \<Rightarrow> Inr (if b then x # ys else ys)))"

definition year_filter :: "int option \<Rightarrow> int option \<Rightarrow> movie list \<Rightarrow> error + movie list" where
  "year_filter ys ye results =
     (case (ys, ye) of
        (Some a, Some b) \<Rightarrow> if a \<noteq> 0 \<and> b \<noteq> 0 then filter_e (year_keep a b) results else Inr results
      | _ \<Rightarrow> Inr results)"

text \<open>Lines 105 to 110.\<close>

definition reverse_genre_map :: "catalog \<Rightarrow> int \<Rightarrow> string option" where
  "reverse_genre_map cat = map_of (rev (map (\<lambda>(k, v). (v, k)) cat))"

definition movie_genre_names :: "catalog \<Rightarrow> movie \<Rightarrow> string option list" where
  "movie_genre_names cat m =
     map (reverse_genre_map cat) (case genre_ids m of None \<Rightarrow> [] | Some ids \<Rightarrow> ids)"

definition genre_keep :: "catalog \<Rightarrow> string list \<Rightarrow> movie \<Rightarrow> bool" where
  "genre_keep cat gs m = list_ex (\<lambda>g. Some g \<in> set (movie_genre_names cat m)) gs"

definition genre_filter :: "catalog \<Rightarrow> string list \<Rightarrow> movie list \<Rightarrow> movie list" where
  "genre_filter cat gs results = (if gs \<noteq> [] then filter (genre_keep cat gs) results else results)"

text \<open>Line 112: \<^verbatim>\<open>list.sort(key=..., reverse=True)\<close> is a stable sort by descending key;
  a stable sort is determined by the order of the keys, and this is the insertion sort
  that keeps an element in front of the later elements of equal key.\<close>

definition pop_key :: "movie \<Rightarrow> real" where
  "pop_key m = (case popularity m of None \<Rightarrow> 0 | Some p \<Rightarrow> p)"

fun insert_desc :: "('a \<Rightarrow> real) \<Rightarrow> 'a \<Rightarrow> 'a list \<Rightarrow> 'a list" where
  "insert_desc k x [] = [x]"
| "insert_desc k x (y # ys) = (if k y \<le> k x then x # y # ys else y # insert_desc k x ys)"

definition py_sort_desc :: "('a \<Rightarrow> real) \<Rightarrow> 'a list \<Rightarrow> 'a list" where
  "py_sort_desc k xs = foldr (insert_desc k) xs []"

definition fetch_all ::
  "string option \<Rightarrow> catalog \<Rightarrow> fetch \<Rightarrow> filters \<Rightarrow> (error + movie list) \<times> params list" where
  "fetch_all api_key cat fetch f = fetch_pages fetch (base_params api_key cat f) [1, 2, 3, 4, 5] []"

definition discover_movies ::
  "string option \<Rightarrow> catalog \<Rightarrow> fetch \<Rightarrow> filters \<Rightarrow> error + movie list" where
  "discover_movies api_key cat fetch f =
     bind_e (fst (fetch_all api_key cat fetch f)) (\<lambda>results.
     bind_e (year_filter (year_start f) (year_end f) results) (\<lambda>results.
     Inr (py_sort_desc pop_key (genre_filter cat (genres f) results))))"

definition discover_requests ::
  "string option \<Rightarrow> catalog \<Rightarrow> fetch \<Rightarrow> filters \<Rightarrow> params list" where
  "discover_requests api_key cat fetch f = snd (fetch_all api_key cat fetch f)"

section \<open>The script: widgets, merge of the interpreter's output, fallback chain\<close>

text \<open>
  Streamlit runs the script from top to bottom on every interaction. One run reads the
  widgets (\<open>ui_input\<close>), calls the interpreter when the text box is not empty, merges its
  output into the manual selections (lines 156 to 168) and, when the button was pressed,
  runs the chain of \<^verbatim>\<open>discover_movies\<close> calls (lines 170 to 220). The variables of the script
  hold Python objects; \<open>v_parsed\<close> is \<open>None\<close> while the name \<^verbatim>\<open>parsed\<close> is unbound.
\<close>

record ui_input =
  query :: string
  sel_genres :: "string list"
  decade :: string
  critics_only :: bool
  adult :: bool
  recommend :: bool

record vars =
  v_genres :: json
  v_y_start :: json
  v_y_end :: json
  v_min_score :: json
  v_min_runtime :: json
  v_max_runtime :: json
  v_parsed :: "json option"

definition decade_range :: "(string \<times> json \<times> json) list" where
  "decade_range =
     [(''1970s'', JInt 1970, JInt 1979),
      (''1980s'', JInt 1980, JInt 1989),
      (''1990s'', JInt 1990, JInt 1999),
      (''2000s'', JInt 2000, JInt 2009),
      (''2010s'', JInt 2010, JInt 2019),
      (''2020s'', JInt 2020, JInt 2025),
      (''Any'', JNull, JNull)]"

definition decade_years :: "string \<Rightarrow> json \<times> json" where
  "decade_years d = (case map_of decade_range d of None \<Rightarrow> (JNull, JNull) | Some r \<Rightarrow> r)"

text \<open>Lines 134 to 154.\<close>

definition initial_vars :: "ui_input \<Rightarrow> vars" where
  "initial_vars ui =
     \<lparr>v_genres = JList (map JStr (sel_genres ui)),
      v_y_start = fst (decade_years (decade ui)),
      v_y_end = snd (decade_years (decade ui)),
      v_min_score = (if critics_only ui then JFloat 7.0 else JNull),
      v_min_runtime = JNull,
      v_max_runtime = JNull,
      v_parsed = None\<rparr>"

text \<open>Lines 160 to 168, one definition for each statement; \<^verbatim>\<open>and\<close> evaluates its right
  operand only when the left one is true.\<close>

definition merge_genres :: "json \<Rightarrow> vars \<Rightarrow> error + vars" where
  "merge_genres p v =
     (if truthy (v_genres v) then Inr v
      else bind_e (py_get p ''genres'') (\<lambda>g. Inr (if truthy g then v\<lparr>v_genres := g\<rparr> else v)))"

definition merge_years :: "string \<Rightarrow> json \<Rightarrow> vars \<Rightarrow> error + vars" where
  "merge_years d p v =
     (if d \<noteq> ''Any'' then Inr v
      else bind_e (py_get p ''year_start'') (\<lambda>a.
           if \<not> truthy a then Inr v
           else bind_e (py_get p ''year_end'') (\<lambda>b.
                Inr (if truthy b then v\<lparr>v_y_start := a, v_y_end := b\<rparr> else v))))"

definition merge_score :: "json \<Rightarrow> vars \<Rightarrow> error + vars" where
  "merge_score p v =
     (if truthy (v_min_score v) then Inr v
      else bind_e (py_get p ''min_score'') (\<lambda>s. Inr (if truthy s then v\<lparr>v_min_score := s\<rparr> else v)))"

definition merge_runtime :: "json \<Rightarrow> vars \<Rightarrow> error + vars" where
  "merge_runtime p v =
     bind_e (py_get p ''min_runtime'') (\<lambda>a.
     bind_e (py_get p ''max_runtime'') (\<lambda>b.
     Inr (v\<lparr>v_min_runtime := a, v_max_runtime := b\<rparr>)))"

definition merge_query :: "string \<Rightarrow> json \<Rightarrow> vars \<Rightarrow> error + vars" where
  "merge_query d p v =
     bind_e (merge_genres p v) (\<lambda>v1.
     bind_e (merge_years d p v1) (\<lambda>v2.
     bind_e (merge_score p v2) (\<lambda>v3.
     merge_runtime p v3)))"

text \<open>The five call sites of \<^verbatim>\<open>discover_movies\<close> in the button handler.\<close>

datatype fb_state = Full | DropScore | DropRuntime | DropCertification | SingleGenre

record call_args =
  a_genres :: json
  a_year_start :: json
  a_year_end :: json
  a_min_score :: json
  a_certification :: json
  a_min_runtime :: json
  a_max_runtime :: json
  a_include_adult :: bool

text \<open>\<^verbatim>\<open>parsed.get("certification")\<close>: a \<^verbatim>\<open>NameError\<close> while \<^verbatim>\<open>parsed\<close> is unbound.\<close>

definition cert_of :: "vars \<Rightarrow> error + json" where
  "cert_of v = (case v_parsed v of None \<Rightarrow> Inl NameError | Some p \<Rightarrow> py_get p ''certification'')"

text \<open>The argument list written at each call site, evaluated from left to right.\<close>

fun stage_args :: "fb_state \<Rightarrow> vars \<Rightarrow> bool \<Rightarrow> error + call_args" where
  "stage_args Full v ia =
     bind_e (cert_of v) (\<lambda>c. Inr
       \<lparr>a_genres = v_genres v, a_year_start = v_y_start v, a_year_end = v_y_end v,
        a_min_score = v_min_score v, a_certification = c,
        a_min_runtime = v_min_runtime v, a_max_runtime = v_max_runtime v,
        a_include_adult = ia\<rparr>)"
| "stage_args DropScore v ia =
     bind_e (cert_of v) (\<lambda>c. Inr
       \<lparr>a_genres = v_genres v, a_year_start = v_y_start v, a_year_end = v_y_end v,
        a_min_score = JNull, a_certification = c,
        a_min_runtime = v_min_runtime v, a_max_runtime = v_max_runtime v,
        a_include_adult = ia\<rparr>)"
| "stage_args DropRuntime v ia =
     bind_e (cert_of v) (\<lambda>c. Inr
       \<lparr>a_genres = v_genres v, a_year_start = v_y_start v, a_year_end = v_y_end v,
        a_min_score = JNull, a_certification = c,
        a_min_runtime = JNull, a_max_runtime = JNull,
        a_include_adult = ia\<rparr>)"
| "stage_args DropCertification v ia =
     Inr
       \<lparr>a_genres = v_genres v, a_year_start = v_y_start v, a_year_end = v_y_end v,
        a_min_score = JNull, a_certification = JNull,
        a_min_runtime = JNull, a_max_runtime = JNull,
        a_include_adult = ia\<rparr>"
| "stage_args SingleGenre v ia =
     bind_e (py_item0 (v_genres v)) (\<lambda>g. Inr
       \<lparr>a_genres = JList [g], a_year_start = v_y_start v, a_year_end = v_y_end v,
        a_min_score = JNull, a_certification = JNull,
        a_min_runtime = JNull, a_max_runtime = JNull,
        a_include_adult = ia\<rparr>)"

text \<open>
  The state of a run: the exception that ended it, if any; the variable \<^verbatim>\<open>movies\<close>;
  the \<^verbatim>\<open>discover_movies\<close> calls made, in order, each with its call site and arguments;
  the notices shown. The discovery function is an argument of the handler, indexed by
  the call site (each site is executed at most once in a run), so that what is proved
  of the handler holds whatever the provider answers.
\<close>

record 'm run =
  raised :: "error option"
  movies :: "'m list"
  calls :: "(fb_state \<times> call_args) list"
  notices :: "notice list"

type_synonym 'm discover = "fb_state \<Rightarrow> call_args \<Rightarrow> error + 'm list"

definition stage_info :: "fb_state \<Rightarrow> notice list" where
  "stage_info st =
     (case st of
        Full \<Rightarrow> []
      | DropScore \<Rightarrow> [InfoNotice ''No results with all filters. Trying without critic score...'']
      | DropRuntime \<Rightarrow> [InfoNotice ''Still nothing. Trying without runtime filter...'']
      | DropCertification \<Rightarrow> [InfoNotice ''Still no results. Trying without certification filter...'']
      | SingleGenre \<Rightarrow> [InfoNotice ''Trying again with only one genre...''])"

text \<open>One block: the notice, the arguments, the call, the assignment to \<^verbatim>\<open>movies\<close>.\<close>

definition stage :: "'m discover \<Rightarrow> fb_state \<Rightarrow> vars \<Rightarrow> bool \<Rightarrow> 'm run \<Rightarrow> 'm run" where
  "stage disc st v ia r =
     (case stage_args st v ia of
        Inl e \<Rightarrow> r\<lparr>raised := Some e, notices := notices r @ stage_info st\<rparr>
      | Inr a \<Rightarrow>
          (case disc st a of
             Inl e \<Rightarrow> r\<lparr>raised := Some e, calls := calls r @ [(st, a)],
                        notices := notices r @ stage_info st\<rparr>
           | Inr ms \<Rightarrow> r\<lparr>movies := ms, calls := calls r @ [(st, a)],
                         notices := notices r @ stage_info st\<rparr>))"

text \<open>The guards \<^verbatim>\<open>if not movies\<close>, \<^verbatim>\<open>if not movies and parsed.get("certification")\<close> and
  \<^verbatim>\<open>if not movies and genres\<close>; nothing runs after an exception.\<close>

definition retry :: "'m run \<Rightarrow> bool" where
  "retry r = (raised r = None \<and> movies r = [])"

definition no_results_notice :: notice where
  "no_results_notice = WarningNotice ''No results found at all. Try a more general query.''"

definition start_run :: "notice list \<Rightarrow> 'm run" where
  "start_run ns = \<lparr>raised = None, movies = [], calls = [], notices = ns\<rparr>"

text \<open>Line 172, and the four blocks that the source marks Fallback 1 to Fallback 4.\<close>

definition first_call :: "'m discover \<Rightarrow> vars \<Rightarrow> bool \<Rightarrow> 'm run \<Rightarrow> 'm run" where
  "first_call disc v ia r = stage disc Full v ia r"

definition fallback1 :: "'m discover \<Rightarrow> vars \<Rightarrow> bool \<Rightarrow> 'm run \<Rightarrow> 'm run" where
  "fallback1 disc v ia r = (if retry r then stage disc DropScore v ia r else r)"

definition fallback2 :: "'m discover \<Rightarrow> vars \<Rightarrow> bool \<Rightarrow> 'm run \<Rightarrow> 'm run" where
  "fallback2 disc v ia r = (if retry r then stage disc DropRuntime v ia r else r)"

definition fallback3 :: "'m discover \<Rightarrow> vars \<Rightarrow> bool \<Rightarrow> 'm run \<Rightarrow> 'm run" where
  "fallback3 disc v ia r =
     (if retry r then
        (case cert_of v of
           Inl e \<Rightarrow> r\<lparr>raised := Some e\<rparr>
         | Inr c \<Rightarrow> if truthy c then stage disc DropCertification v ia r else r)
      else r)"

definition fallback4 :: "'m discover \<Rightarrow> vars \<Rightarrow> bool \<Rightarrow> 'm run \<Rightarrow> 'm run" where
  "fallback4 disc v ia r =
     (if retry r \<and> truthy (v_genres v) then stage disc SingleGenre v ia r else r)"

text \<open>Lines 217 to 220.\<close>

definition show_results :: "'m run \<Rightarrow> 'm run" where
  "show_results r = (if retry r then r\<lparr>notices := notices r @ [no_results_notice]\<rparr> else r)"

definition button_handler :: "'m discover \<Rightarrow> vars \<Rightarrow> bool \<Rightarrow> notice list \<Rightarrow> 'm run" where
  "button_handler disc v ia ns =
     show_results
       (fallback4 disc v ia
         (fallback3 disc v ia
           (fallback2 disc v ia
             (fallback1 disc v ia
               (first_call disc v ia (start_run ns))))))"

text \<open>One run of the script. \<open>serve\<close> is the outcome of the endpoint call and of decoding
  its body for a prompt.\<close>

definition after_merge :: "'m discover \<Rightarrow> ui_input \<Rightarrow> notice list \<Rightarrow> vars \<Rightarrow> 'm run" where
  "after_merge disc ui ns v =
     (if recommend ui then button_handler disc v (adult ui) ns
      else start_run ns)"

definition run_script ::
  "(string \<Rightarrow> json option) \<Rightarrow> (string \<Rightarrow> error + json) \<Rightarrow> 'm discover \<Rightarrow> ui_input \<Rightarrow> 'm run" where
  "run_script loads serve disc ui =
     (if query ui \<noteq> [] then
        (case gpt_parse_prompt loads (serve (query ui)) of
           (Inl e, ns) \<Rightarrow> \<lparr>raised = Some e, movies = [], calls = [], notices = ns\<rparr>
         | (Inr p, ns) \<Rightarrow>
             (case merge_query (decade ui) p ((initial_vars ui)\<lparr>v_parsed := Some p\<rparr>) of
                Inl e \<Rightarrow> \<lparr>raised = Some e, movies = [], calls = [], notices = ns\<rparr>
              | Inr v \<Rightarrow> after_merge disc ui ns v))
      else after_merge disc ui [] (initial_vars ui))"

section \<open>Notions used to state the properties\<close>









text \<open>A run with every manual widget set and an interpreter output that disagrees.\<close>

definition manual_ui :: ui_input where
  "manual_ui = \<lparr>query = ''a long comedy'', sel_genres = [''Action''], decade = ''1990s'',
     critics_only = True, adult = False, recommend = True\<rparr>"

definition manual_parsed :: json where
  "manual_parsed = JDict [(''genres'', JList [JStr ''Comedy'']), (''year_start'', JInt 2000),
     (''year_end'', JInt 2005), (''min_score'', JFloat 8), (''min_runtime'', JInt 150)]"



text \<open>Inputs of the examples: no filter at all; a provider that answers page 1 and fails
  or is empty afterwards; movies that differ in popularity or in release date.\<close>

definition empty_filters :: filters where
  "empty_filters = \<lparr>genres = [], year_start = None, year_end = None, min_score = None,
     certification = None, min_runtime = None, max_runtime = None, include_adult = False\<rparr>"


definition sample_movie :: movie where
  "sample_movie = \<lparr>movie_id = 1, title = ''Heat'', release_date = Some ''1995-12-15'',
     genre_ids = Some [28], popularity = Some 9.1\<rparr>"

definition flaky_fetch :: fetch where
  "flaky_fetch ps = (if map_of ps ''page'' = Some (JInt 1) then Inr [sample_movie] else Inl ProviderError)"

definition steady_fetch :: fetch where
  "steady_fetch ps = (if map_of ps ''page'' = Some (JInt 1) then Inr [sample_movie] else Inr [])"

definition pop_movie :: "int \<Rightarrow> real option \<Rightarrow> movie" where
  "pop_movie i p = \<lparr>movie_id = i, title = [], release_date = None, genre_ids = None, popularity = p\<rparr>"

definition pop_fetch :: fetch where
  "pop_fetch ps =
     (if map_of ps ''page'' = Some (JInt 1)
      then Inr [pop_movie 1 (Some 3.2), pop_movie 2 (Some 9.1), pop_movie 3 (Some 9.1), pop_movie 4 (Some 1.0)]
      else Inr [])"

text \<open>The year that line 103 reads from a movie, when its date is present, not empty and
  readable; the dates on which line 103 does not raise; the movies of a range of years.\<close>

definition release_year :: "movie \<Rightarrow> int option" where
  "release_year m =
     (case release_date m of None \<Rightarrow> None | Some d \<Rightarrow> if d = [] then None else py_int (take 4 d))"

definition date_readable :: "movie \<Rightarrow> bool" where
  "date_readable m =
     (case release_date m of None \<Rightarrow> True | Some d \<Rightarrow> d = [] \<or> py_int (take 4 d) \<noteq> None)"

definition in_years :: "int \<Rightarrow> int \<Rightarrow> movie \<Rightarrow> bool" where
  "in_years a b m = (case release_year m of None \<Rightarrow> False | Some y \<Rightarrow> a \<le> y \<and> y \<le> b)"

definition dated_movie :: "string option \<Rightarrow> movie" where
  "dated_movie d = \<lparr>movie_id = 7, title = ''Inside Out'', release_date = d, genre_ids = Some [16],
     popularity = Some 50\<rparr>"

text \<open>Membership of a genre name in the catalog, and a catalog with one genre.\<close>

definition known :: "catalog \<Rightarrow> string \<Rightarrow> bool" where
  "known cat g = (map_of cat g \<noteq> None)"

definition action_catalog :: catalog where
  "action_catalog = [(''Action'', 28)]"


text \<open>A response of the model endpoint that carries one text block, and the model outputs
  of the examples.\<close>

definition text_response :: "string \<Rightarrow> json" where
  "text_response t = JDict [(''content'', JList [JDict [(''type'', JStr ''text''), (''text'', JStr t)]])]"


definition comedy_body :: string where
  \<open>comedy_body = ''\<newline>{"genres": ["Comedy"], "year_start": null}\<newline>''\<close>

definition comedy_parsed :: json where
  "comedy_parsed = JDict [(''genres'', JList [JStr ''Comedy'']), (''year_start'', JNull)]"

definition refusal_text :: string where
  "refusal_text = ''Sorry, I cannot help.''"




section \<open>The fallback chain\<close>






















lemma stage_args_raise:
  "stage_args st v ia = Inl e \<Longrightarrow>
   stage disc st v ia r = r\<lparr>raised := Some e, notices := notices r @ stage_info st\<rparr>"
  by (simp add: stage_def)























text \<open>
  Claim C5. A run with an empty text box and the button pressed: the name \<^verbatim>\<open>parsed\<close> is
  bound only under \<^verbatim>\<open>if query:\<close>, so evaluating the arguments of the first call raises
  \<^verbatim>\<open>NameError\<close> before any call is made, whatever the manual filters are.
\<close>

theorem no_query_recommend_raises:
  "run_script loads serve disc
     \<lparr>query = [], sel_genres = gs, decade = d, critics_only = c, adult = a, recommend = True\<rparr>
   = \<lparr>raised = Some NameError, movies = [], calls = [], notices = []\<rparr>"
proof -
  let ?ui = "\<lparr>query = [], sel_genres = gs, decade = d, critics_only = c, adult = a, recommend = True\<rparr>"
  have n: "stage_args Full (initial_vars ?ui) a = Inl NameError"
    by (simp add: initial_vars_def cert_of_def bind_e_def)
  have r1: "first_call disc (initial_vars ?ui) a (start_run []) =
       \<lparr>raised = Some NameError, movies = [], calls = [], notices = []\<rparr>"
    by (simp add: first_call_def stage_args_raise [OF n] start_run_def stage_info_def)
  have "button_handler disc (initial_vars ?ui) a [] =
       \<lparr>raised = Some NameError, movies = [], calls = [], notices = []\<rparr>"
    by (simp add: button_handler_def r1 fallback1_def fallback2_def fallback3_def fallback4_def
        show_results_def retry_def)
  then show ?thesis
    by (simp add: run_script_def after_merge_def)
qed

section \<open>The merge of the interpreter's output\<close>

lemma py_get_nondict: "\<forall>kvs. p \<noteq> JDict kvs \<Longrightarrow> py_get p k = Inl AttributeError"
  by (cases p) simp_all

lemma merge_runtime_nondict: "\<forall>kvs. p \<noteq> JDict kvs \<Longrightarrow> merge_runtime p v = Inl AttributeError"
  by (simp add: merge_runtime_def py_get_nondict bind_e_def)

lemma merge_query_nondict:
  assumes "\<forall>kvs. p \<noteq> JDict kvs"
  shows "merge_query d p v = Inl AttributeError"
  using assms
  by (simp add: merge_query_def merge_genres_def merge_years_def merge_score_def
      merge_runtime_nondict py_get_nondict bind_e_def)

lemma merge_query_Inr_dict:
  assumes "merge_query d p v = Inr v'"
  obtains kvs where "p = JDict kvs"
  using assms merge_query_nondict [of p d v] by (cases "\<forall>kvs. p \<noteq> JDict kvs") auto

lemma py_get_dget: "py_get (JDict kvs) k = Inr (dget kvs k)"
  by simp

lemma merge_query_dict:
  "merge_query d (JDict kvs) v =
     Inr \<lparr>v_genres = (if \<not> truthy (v_genres v) \<and> truthy (dget kvs ''genres'')
                      then dget kvs ''genres'' else v_genres v),
          v_y_start = (if d = ''Any'' \<and> truthy (dget kvs ''year_start'') \<and> truthy (dget kvs ''year_end'')
                       then dget kvs ''year_start'' else v_y_start v),
          v_y_end = (if d = ''Any'' \<and> truthy (dget kvs ''year_start'') \<and> truthy (dget kvs ''year_end'')
                     then dget kvs ''year_end'' else v_y_end v),
          v_min_score = (if \<not> truthy (v_min_score v) \<and> truthy (dget kvs ''min_score'')
                         then dget kvs ''min_score'' else v_min_score v),
          v_min_runtime = dget kvs ''min_runtime'',
          v_max_runtime = dget kvs ''max_runtime'',
          v_parsed = v_parsed v\<rparr>"
  unfolding merge_query_def merge_genres_def merge_years_def merge_score_def merge_runtime_def
    py_get_dget bind_e_def
  by (cases v) simp

text \<open>
  Claim C10. When the merge block completes, manual selections win: the parsed genres are
  used only if no genre was selected, the parsed years only if the decade is Any and both
  are set, the parsed minimal score only if the critics box is off; the runtimes are
  always those of the interpreter's output.
\<close>

theorem merge_precedence:
  assumes m: "merge_query (decade ui) p ((initial_vars ui)\<lparr>v_parsed := Some p\<rparr>) = Inr v"
  shows "(sel_genres ui \<noteq> [] \<longrightarrow> v_genres v = JList (map JStr (sel_genres ui))) \<and>
         (v_genres v \<noteq> JList (map JStr (sel_genres ui)) \<longrightarrow>
            sel_genres ui = [] \<and> py_get p ''genres'' = Inr (v_genres v) \<and> truthy (v_genres v)) \<and>
         (decade ui \<noteq> ''Any'' \<longrightarrow> (v_y_start v, v_y_end v) = decade_years (decade ui)) \<and>
         ((v_y_start v, v_y_end v) \<noteq> decade_years (decade ui) \<longrightarrow>
            decade ui = ''Any'' \<and> py_get p ''year_start'' = Inr (v_y_start v) \<and> truthy (v_y_start v) \<and>
            py_get p ''year_end'' = Inr (v_y_end v) \<and> truthy (v_y_end v)) \<and>
         (critics_only ui \<longrightarrow> v_min_score v = JFloat 7.0) \<and>
         (v_min_score v \<noteq> (if critics_only ui then JFloat 7.0 else JNull) \<longrightarrow>
            \<not> critics_only ui \<and> py_get p ''min_score'' = Inr (v_min_score v) \<and> truthy (v_min_score v)) \<and>
         py_get p ''min_runtime'' = Inr (v_min_runtime v) \<and>
         py_get p ''max_runtime'' = Inr (v_max_runtime v)"
proof -
  from m obtain kvs where p: "p = JDict kvs" by (rule merge_query_Inr_dict)
  let ?v0 = "(initial_vars ui)\<lparr>v_parsed := Some p\<rparr>"
  have g0: "v_genres (initial_vars ui) = JList (map JStr (sel_genres ui))"
    and y0: "v_y_start (initial_vars ui) = fst (decade_years (decade ui))"
      "v_y_end (initial_vars ui) = snd (decade_years (decade ui))"
    and s0: "v_min_score (initial_vars ui) = (if critics_only ui then JFloat 7.0 else JNull)"
    by (simp_all add: initial_vars_def)
  from m have v: "v = \<lparr>v_genres = (if \<not> truthy (v_genres ?v0) \<and> truthy (dget kvs ''genres'')
                      then dget kvs ''genres'' else v_genres ?v0),
          v_y_start = (if decade ui = ''Any'' \<and> truthy (dget kvs ''year_start'') \<and> truthy (dget kvs ''year_end'')
                       then dget kvs ''year_start'' else v_y_start ?v0),
          v_y_end = (if decade ui = ''Any'' \<and> truthy (dget kvs ''year_start'') \<and> truthy (dget kvs ''year_end'')
                     then dget kvs ''year_end'' else v_y_end ?v0),
          v_min_score = (if \<not> truthy (v_min_score ?v0) \<and> truthy (dget kvs ''min_score'')
                         then dget kvs ''min_score'' else v_min_score ?v0),
          v_min_runtime = dget kvs ''min_runtime'',
          v_max_runtime = dget kvs ''max_runtime'',
          v_parsed = v_parsed ?v0\<rparr>"
    unfolding p merge_query_dict by simp
  have G: "(sel_genres ui \<noteq> [] \<longrightarrow> v_genres v = JList (map JStr (sel_genres ui))) \<and>
         (v_genres v \<noteq> JList (map JStr (sel_genres ui)) \<longrightarrow>
            sel_genres ui = [] \<and> py_get p ''genres'' = Inr (v_genres v) \<and> truthy (v_genres v))"
    unfolding v p py_get_dget by (auto simp: g0)
  have Y: "(decade ui \<noteq> ''Any'' \<longrightarrow> (v_y_start v, v_y_end v) = decade_years (decade ui)) \<and>
         ((v_y_start v, v_y_end v) \<noteq> decade_years (decade ui) \<longrightarrow>
            decade ui = ''Any'' \<and> py_get p ''year_start'' = Inr (v_y_start v) \<and> truthy (v_y_start v) \<and>
            py_get p ''year_end'' = Inr (v_y_end v) \<and> truthy (v_y_end v))"
    unfolding v p py_get_dget by (auto simp: y0)
  have S: "(critics_only ui \<longrightarrow> v_min_score v = JFloat 7.0) \<and>
         (v_min_score v \<noteq> (if critics_only ui then JFloat 7.0 else JNull) \<longrightarrow>
            \<not> critics_only ui \<and> py_get p ''min_score'' = Inr (v_min_score v) \<and> truthy (v_min_score v))"
    unfolding v p py_get_dget by (auto simp: s0)
  have R: "py_get p ''min_runtime'' = Inr (v_min_runtime v) \<and>
         py_get p ''max_runtime'' = Inr (v_max_runtime v)"
    unfolding v p py_get_dget by simp
  from G Y S R show ?thesis by blast
qed

theorem merge_precedence_witness:
  "merge_query (decade manual_ui) manual_parsed ((initial_vars manual_ui)\<lparr>v_parsed := Some manual_parsed\<rparr>) =
     Inr \<lparr>v_genres = JList [JStr ''Action''], v_y_start = JInt 1990, v_y_end = JInt 1999,
          v_min_score = JFloat 7.0, v_min_runtime = JInt 150, v_max_runtime = JNull,
          v_parsed = Some manual_parsed\<rparr> \<and>
   sel_genres manual_ui \<noteq> [] \<and> decade manual_ui \<noteq> ''Any'' \<and> critics_only manual_ui"
proof -
  let ?v = "\<lparr>v_genres = JList [JStr ''Action''], v_y_start = JInt 1990, v_y_end = JInt 1999,
          v_min_score = JFloat 7.0, v_min_runtime = JInt 150, v_max_runtime = JNull,
          v_parsed = Some manual_parsed\<rparr>"
  have i: "initial_vars manual_ui = \<lparr>v_genres = JList [JStr ''Action''], v_y_start = JInt 1990, v_y_end = JInt 1999,
          v_min_score = JFloat 7.0, v_min_runtime = JNull, v_max_runtime = JNull, v_parsed = None\<rparr>"
    by (simp add: initial_vars_def manual_ui_def decade_years_def decade_range_def)
  have g: "dget [(''genres'', JList [JStr ''Comedy'']), (''year_start'', JInt 2000),
     (''year_end'', JInt 2005), (''min_score'', JFloat 8), (''min_runtime'', JInt 150)] ''min_runtime'' = JInt 150"
    "dget [(''genres'', JList [JStr ''Comedy'']), (''year_start'', JInt 2000),
     (''year_end'', JInt 2005), (''min_score'', JFloat 8), (''min_runtime'', JInt 150)] ''max_runtime'' = JNull"
    by (simp_all add: dget_def)
  have d: "decade manual_ui = ''1990s''" by (simp add: manual_ui_def)
  have m: "merge_query (decade manual_ui) manual_parsed ((initial_vars manual_ui)\<lparr>v_parsed := Some manual_parsed\<rparr>) = Inr ?v"
    unfolding i d unfolding manual_parsed_def merge_query_dict g by simp
  show ?thesis
    using merge_precedence [OF m] m by (simp add: manual_ui_def)
qed

section \<open>The discovery engine: request parameters\<close>

lemma map_of_filter_Cons:
  "map_of (filter P ((k', v) # xs)) k = (if k = k' \<and> P (k', v) then Some v else map_of (filter P xs) k)"
  by simp

lemma request_params_unfold:
  "request_params (base_params api_key cat f) page =
     filter (\<lambda>(k, v). v \<noteq> JNull)
     [(''api_key'', opt_json JStr api_key),
      (''language'', JStr ''en-US''),
      (''sort_by'', JStr ''popularity.desc''),
      (''include_adult'', JBool (include_adult f)),
      (''with_genres'',
         if resolve_genre_ids cat (genres f) \<noteq> []
         then JStr (py_join '','' (resolve_genre_ids cat (genres f))) else JNull),
      (''vote_average.gte'', opt_json JFloat (min_score f)),
      (''certification_country'', JStr ''US''),
      (''certification.lte'', opt_json JStr (certification f)),
      (''with_runtime.gte'', opt_json JInt (min_runtime f)),
      (''with_runtime.lte'', opt_json JInt (max_runtime f)),
      (''page'', JInt page)]"
  unfolding request_params_def base_params_def by simp

lemma opt_json_Null: "(opt_json JStr x = JNull) = (x = None)" "(opt_json JInt y = JNull) = (y = None)"
  "(opt_json JFloat z = JNull) = (z = None)"
  by (simp_all add: opt_json_def split: option.splits)

lemma opt_json_Some: "x \<noteq> None \<Longrightarrow> Some (opt_json c x) = map_option c x"
  by (cases x) (simp_all add: opt_json_def)








lemma param_page:
  "map_of (request_params (base_params api_key cat f) page) ''page'' = Some (JInt page)"
  unfolding request_params_unfold
  by (simp only: map_of_filter_Cons) (simp add: opt_json_Null opt_json_Some)




section \<open>The discovery engine: the page loop\<close>

lemma fetch_pages_all_ok:
  "\<forall>p \<in> set pages. fetch (request_params bp p) = Inr (ms p) \<Longrightarrow>
   fetch_pages fetch bp pages acc =
     (Inr (acc @ concat (map ms pages)), map (request_params bp) pages)"
  by (induction pages arbitrary: acc) simp_all

lemma fetch_pages_first_failure:
  "\<forall>p \<in> set ps1. \<exists>ms. fetch (request_params bp p) = Inr ms \<Longrightarrow>
   fetch (request_params bp k) = Inl e \<Longrightarrow>
   fetch_pages fetch bp (ps1 @ k # ps2) acc = (Inl e, map (request_params bp) (ps1 @ [k]))"
proof (induction ps1 arbitrary: acc)
  case Nil
  then show ?case by simp
next
  case (Cons p ps1)
  from Cons.prems(1) obtain ms where ms: "fetch (request_params bp p) = Inr ms" by auto
  from Cons.prems have "fetch_pages fetch bp (ps1 @ k # ps2) (acc @ ms) =
      (Inl e, map (request_params bp) (ps1 @ [k]))"
    by (intro Cons.IH) auto
  with ms show ?case by simp
qed

lemma flaky_fetch_page:
  "flaky_fetch (request_params (base_params api_key cat f) page) =
     (if page = 1 then Inr [sample_movie] else Inl ProviderError)"
  by (simp add: flaky_fetch_def param_page)

lemma steady_fetch_page:
  "steady_fetch (request_params (base_params api_key cat f) page) =
     (if page = 1 then Inr [sample_movie] else Inr [])"
  by (simp add: steady_fetch_def param_page)

text \<open>
  Claim C3, as the code has it. The pages 1 to 5 are requested in this order. When all five
  requests return, their records are concatenated in page order. When a request raises
  after the earlier ones returned, no later page is requested and \<^verbatim>\<open>discover_movies\<close> raises
  the same exception: the records of the earlier pages are not returned.
\<close>

theorem page_failure_propagates:
  "((\<forall>p \<in> set [1, 2, 3, 4, 5]. fetch (request_params (base_params api_key cat f) p) = Inr (ms p)) \<longrightarrow>
      discover_requests api_key cat fetch f =
        map (request_params (base_params api_key cat f)) [1, 2, 3, 4, 5] \<and>
      fst (fetch_all api_key cat fetch f) = Inr (ms 1 @ ms 2 @ ms 3 @ ms 4 @ ms 5)) \<and>
   (ps1 @ k # ps2 = [1, 2, 3, 4, 5] \<and>
    (\<forall>p \<in> set ps1. \<exists>ms. fetch (request_params (base_params api_key cat f) p) = Inr ms) \<and>
    fetch (request_params (base_params api_key cat f) k) = Inl e \<longrightarrow>
      discover_movies api_key cat fetch f = Inl e \<and>
      discover_requests api_key cat fetch f =
        map (request_params (base_params api_key cat f)) (ps1 @ [k]))"
proof -
  let ?bp = "base_params api_key cat f"
  have A: "(\<forall>p \<in> set [1, 2, 3, 4, 5]. fetch (request_params ?bp p) = Inr (ms p)) \<longrightarrow>
      discover_requests api_key cat fetch f = map (request_params ?bp) [1, 2, 3, 4, 5] \<and>
      fst (fetch_all api_key cat fetch f) = Inr (ms 1 @ ms 2 @ ms 3 @ ms 4 @ ms 5)"
  proof
    assume h: "\<forall>p \<in> set [1, 2, 3, 4, 5]. fetch (request_params ?bp p) = Inr (ms p)"
    have "fetch_all api_key cat fetch f =
        (Inr ([] @ concat (map ms [1, 2, 3, 4, 5])), map (request_params ?bp) [1, 2, 3, 4, 5])"
      unfolding fetch_all_def by (rule fetch_pages_all_ok [OF h])
    then show "discover_requests api_key cat fetch f = map (request_params ?bp) [1, 2, 3, 4, 5] \<and>
      fst (fetch_all api_key cat fetch f) = Inr (ms 1 @ ms 2 @ ms 3 @ ms 4 @ ms 5)"
      by (simp add: discover_requests_def)
  qed
  have B: "ps1 @ k # ps2 = [1, 2, 3, 4, 5] \<and>
    (\<forall>p \<in> set ps1. \<exists>ms. fetch (request_params ?bp p) = Inr ms) \<and>
    fetch (request_params ?bp k) = Inl e \<longrightarrow>
      discover_movies api_key cat fetch f = Inl e \<and>
      discover_requests api_key cat fetch f = map (request_params ?bp) (ps1 @ [k])"
  proof
    assume h: "ps1 @ k # ps2 = [1, 2, 3, 4, 5] \<and>
      (\<forall>p \<in> set ps1. \<exists>ms. fetch (request_params ?bp p) = Inr ms) \<and>
      fetch (request_params ?bp k) = Inl e"
    then have "fetch_pages fetch ?bp (ps1 @ k # ps2) [] = (Inl e, map (request_params ?bp) (ps1 @ [k]))"
      by (intro fetch_pages_first_failure) auto
    with h have "fetch_all api_key cat fetch f = (Inl e, map (request_params ?bp) (ps1 @ [k]))"
      by (simp add: fetch_all_def)
    then show "discover_movies api_key cat fetch f = Inl e \<and>
      discover_requests api_key cat fetch f = map (request_params ?bp) (ps1 @ [k])"
      by (simp add: discover_movies_def discover_requests_def bind_e_def)
  qed
  from A B show ?thesis by blast
qed

theorem page_failure_propagates_witness:
  "discover_movies None [] flaky_fetch empty_filters = Inl ProviderError \<and>
   length (discover_requests None [] flaky_fetch empty_filters) = 2 \<and>
   fst (fetch_all None [] steady_fetch empty_filters) = Inr [sample_movie] \<and>
   length (discover_requests None [] steady_fetch empty_filters) = 5"
proof -
  have ok: "\<forall>p \<in> set [1, 2, 3, 4, 5].
      steady_fetch (request_params (base_params None [] empty_filters) p) =
        Inr ((\<lambda>p. if p = 1 then [sample_movie] else []) p)"
    by (simp add: steady_fetch_page)
  have bad: "[1] @ 2 # [3, 4, 5] = [1, 2, 3, 4, 5::int] \<and>
      (\<forall>p \<in> set [1]. \<exists>ms. flaky_fetch (request_params (base_params None [] empty_filters) p) = Inr ms) \<and>
      flaky_fetch (request_params (base_params None [] empty_filters) 2) = Inl ProviderError"
    by (simp add: flaky_fetch_page)
  from page_failure_propagates [of steady_fetch None "[]" empty_filters
      "\<lambda>p. if p = 1 then [sample_movie] else []" "[]" 0 "[]" ProviderError] ok
  have 1: "fst (fetch_all None [] steady_fetch empty_filters) = Inr [sample_movie] \<and>
      length (discover_requests None [] steady_fetch empty_filters) = 5"
    by simp
  from page_failure_propagates [of flaky_fetch None "[]" empty_filters "\<lambda>p. []" "[1]" 2 "[3, 4, 5]"
      ProviderError] bad
  have 2: "discover_movies None [] flaky_fetch empty_filters = Inl ProviderError \<and>
      length (discover_requests None [] flaky_fetch empty_filters) = 2"
    by simp
  from 1 2 show ?thesis by blast
qed

text \<open>Against C3 as stated: page 1 returns a record, page 2 raises, and the call raises
  instead of returning the record of page 1.\<close>

theorem page_failure_aborts:
  "flaky_fetch (request_params (base_params None [] empty_filters) 1) = Inr [sample_movie] \<and>
   flaky_fetch (request_params (base_params None [] empty_filters) 2) = Inl ProviderError \<and>
   discover_movies None [] flaky_fetch empty_filters = Inl ProviderError"
proof -
  have "fetch_pages flaky_fetch (base_params None [] empty_filters) ([1] @ 2 # [3, 4, 5]) [] =
      (Inl ProviderError, map (request_params (base_params None [] empty_filters)) ([1] @ [2]))"
    by (rule fetch_pages_first_failure) (simp_all add: flaky_fetch_page)
  then have "fst (fetch_all None [] flaky_fetch empty_filters) = Inl ProviderError"
    by (simp add: fetch_all_def)
  then show ?thesis
    by (simp add: discover_movies_def bind_e_def flaky_fetch_page)
qed

section \<open>The discovery engine: ranking\<close>

lemma set_insert_desc: "set (insert_desc k x ys) = insert x (set ys)"
  by (induction ys) auto

lemma set_py_sort_desc: "set (py_sort_desc k xs) = set xs"
  by (induction xs) (simp_all add: py_sort_desc_def set_insert_desc)

lemma sorted_insert_desc:
  "sorted_wrt (\<lambda>a b. k b \<le> k a) ys \<Longrightarrow> sorted_wrt (\<lambda>a b. k b \<le> k a) (insert_desc k x ys)"
  by (induction ys) (auto simp: set_insert_desc)

lemma sorted_py_sort_desc: "sorted_wrt (\<lambda>a b. k b \<le> k a) (py_sort_desc k xs)"
  by (induction xs) (simp_all add: py_sort_desc_def sorted_insert_desc)

lemma filter_insert_desc:
  "filter (\<lambda>y. k y = c) (insert_desc k x ys) =
     (if k x = c then x # filter (\<lambda>y. k y = c) ys else filter (\<lambda>y. k y = c) ys)"
  by (induction ys) auto

lemma stable_py_sort_desc:
  "filter (\<lambda>y. k y = c) (py_sort_desc k xs) = filter (\<lambda>y. k y = c) xs"
  by (induction xs) (simp_all add: py_sort_desc_def filter_insert_desc)

lemma filter_e_Inr: "filter_e p xs = Inr ys \<Longrightarrow> subseq ys xs"
proof (induction xs arbitrary: ys)
  case Nil
  then show ?case by simp
next
  case (Cons x xs)
  then show ?case
    by (auto split: sum.splits if_splits)
qed

lemma year_filter_subseq: "year_filter ys ye xs = Inr zs \<Longrightarrow> subseq zs xs"
  by (auto simp: year_filter_def dest: filter_e_Inr split: option.splits if_splits)

lemma genre_filter_subseq: "subseq (genre_filter cat gs xs) xs"
  by (simp add: genre_filter_def)

lemma discover_Inr:
  assumes "discover_movies api_key cat fetch f = Inr res"
  obtains fetched kept where "fst (fetch_all api_key cat fetch f) = Inr fetched"
    "year_filter (year_start f) (year_end f) fetched = Inr kept"
    "res = py_sort_desc pop_key (genre_filter cat (genres f) kept)"
  using assms by (auto simp: discover_movies_def bind_e_def split: sum.splits)

lemma pop_fetch_page:
  "pop_fetch (request_params (base_params api_key cat f) page) =
     Inr (if page = 1 then [pop_movie 1 (Some 3.2), pop_movie 2 (Some 9.1), pop_movie 3 (Some 9.1),
            pop_movie 4 (Some 1.0)] else [])"
  by (simp add: pop_fetch_def param_page)

lemma pop_key_pop_movie: "pop_key (pop_movie j p) = (case p of None \<Rightarrow> 0 | Some x \<Rightarrow> x)"
  by (simp add: pop_key_def pop_movie_def)

text \<open>
  Claim C9. A result of \<^verbatim>\<open>discover_movies\<close> is sorted by descending popularity, and the
  movies of any one popularity stand in the order in which the provider returned them;
  the example of the specification; a movie without popularity has the key 0 and sorts
  as such.
\<close>

theorem result_sorted_stable:
  "(discover_movies api_key cat fetch f = Inr res \<longrightarrow>
      sorted_wrt (\<lambda>a b. pop_key b \<le> pop_key a) res \<and>
      (\<exists>fetched. fst (fetch_all api_key cat fetch f) = Inr fetched \<and>
         (\<forall>c. subseq (filter (\<lambda>m. pop_key m = c) res) fetched))) \<and>
   py_sort_desc pop_key [pop_movie 1 (Some 3.2), pop_movie 2 (Some 9.1), pop_movie 3 (Some 9.1),
        pop_movie 4 (Some 1.0)] =
     [pop_movie 2 (Some 9.1), pop_movie 3 (Some 9.1), pop_movie 1 (Some 3.2), pop_movie 4 (Some 1.0)] \<and>
   pop_key (pop_movie i None) = 0 \<and>
   py_sort_desc pop_key [pop_movie 1 (Some (- 2)), pop_movie 2 None, pop_movie 3 (Some 0), pop_movie 4 (Some 5)] =
     [pop_movie 4 (Some 5), pop_movie 2 None, pop_movie 3 (Some 0), pop_movie 1 (Some (- 2))]"
proof -
  have A: "discover_movies api_key cat fetch f = Inr res \<longrightarrow>
      sorted_wrt (\<lambda>a b. pop_key b \<le> pop_key a) res \<and>
      (\<exists>fetched. fst (fetch_all api_key cat fetch f) = Inr fetched \<and>
         (\<forall>c. subseq (filter (\<lambda>m. pop_key m = c) res) fetched))"
  proof
    assume "discover_movies api_key cat fetch f = Inr res"
    then obtain fetched kept where f: "fst (fetch_all api_key cat fetch f) = Inr fetched"
      and y: "year_filter (year_start f) (year_end f) fetched = Inr kept"
      and r: "res = py_sort_desc pop_key (genre_filter cat (genres f) kept)"
      by (rule discover_Inr)
    have s: "subseq (genre_filter cat (genres f) kept) fetched"
      using genre_filter_subseq year_filter_subseq [OF y] by (rule subseq_order.trans)
    have "subseq (filter (\<lambda>m. pop_key m = c) res) fetched" for c
    proof -
      have "filter (\<lambda>m. pop_key m = c) res = filter (\<lambda>m. pop_key m = c) (genre_filter cat (genres f) kept)"
        unfolding r by (rule stable_py_sort_desc)
      moreover have "subseq (filter (\<lambda>m. pop_key m = c) (genre_filter cat (genres f) kept))
          (genre_filter cat (genres f) kept)"
        by simp
      ultimately show ?thesis using s by (metis subseq_order.trans)
    qed
    with f r show "sorted_wrt (\<lambda>a b. pop_key b \<le> pop_key a) res \<and>
      (\<exists>fetched. fst (fetch_all api_key cat fetch f) = Inr fetched \<and>
         (\<forall>c. subseq (filter (\<lambda>m. pop_key m = c) res) fetched))"
      by (simp add: sorted_py_sort_desc)
  qed
  have k: "pop_key (pop_movie j p) = (case p of None \<Rightarrow> 0 | Some x \<Rightarrow> x)" for j p
    by (simp add: pop_key_def pop_movie_def)
  have B: "py_sort_desc pop_key [pop_movie 1 (Some 3.2), pop_movie 2 (Some 9.1), pop_movie 3 (Some 9.1),
        pop_movie 4 (Some 1.0)] =
     [pop_movie 2 (Some 9.1), pop_movie 3 (Some 9.1), pop_movie 1 (Some 3.2), pop_movie 4 (Some 1.0)]"
    by (simp add: py_sort_desc_def k)
  have C: "pop_key (pop_movie i None) = 0" by (simp add: k)
  have D: "py_sort_desc pop_key [pop_movie 1 (Some (- 2)), pop_movie 2 None, pop_movie 3 (Some 0), pop_movie 4 (Some 5)] =
     [pop_movie 4 (Some 5), pop_movie 2 None, pop_movie 3 (Some 0), pop_movie 1 (Some (- 2))]"
    by (simp add: py_sort_desc_def k)
  from A B C D show ?thesis by blast
qed

theorem result_sorted_stable_witness:
  "discover_movies None [] pop_fetch empty_filters =
     Inr [pop_movie 2 (Some 9.1), pop_movie 3 (Some 9.1), pop_movie 1 (Some 3.2), pop_movie 4 (Some 1.0)] \<and>
   sorted_wrt (\<lambda>a b. pop_key b \<le> pop_key a)
     [pop_movie 2 (Some 9.1), pop_movie 3 (Some 9.1), pop_movie 1 (Some 3.2), pop_movie 4 (Some 1.0)]"
proof -
  let ?in = "[pop_movie 1 (Some 3.2), pop_movie 2 (Some 9.1), pop_movie 3 (Some 9.1), pop_movie 4 (Some 1.0)]"
  let ?out = "[pop_movie 2 (Some 9.1), pop_movie 3 (Some 9.1), pop_movie 1 (Some 3.2), pop_movie 4 (Some 1.0)]"
  have "fetch_all None [] pop_fetch empty_filters =
      (Inr ([] @ concat (map (\<lambda>p::int. if p = 1 then ?in else []) [1, 2, 3, 4, 5])),
       map (request_params (base_params None [] empty_filters)) [1, 2, 3, 4, 5])"
    unfolding fetch_all_def by (rule fetch_pages_all_ok) (simp add: pop_fetch_page)
  then have f: "fst (fetch_all None [] pop_fetch empty_filters) = Inr ?in" by simp
  have s: "py_sort_desc pop_key ?in = ?out"
    by (simp add: py_sort_desc_def pop_key_pop_movie)
  have y: "year_filter (year_start empty_filters) (year_end empty_filters) ?in = Inr ?in"
    by (simp add: year_filter_def empty_filters_def)
  have g: "genre_filter [] (genres empty_filters) ?in = ?in"
    by (simp add: genre_filter_def empty_filters_def)
  have d: "discover_movies None [] pop_fetch empty_filters = Inr ?out"
    unfolding discover_movies_def f by (simp only: bind_e_def sum.case y g s)
  from result_sorted_stable [of None "[]" pop_fetch empty_filters ?out 0] d show ?thesis by simp
qed

section \<open>The discovery engine: the year filter\<close>

lemma year_keep_readable:
  "date_readable m \<Longrightarrow> year_keep a b m = Inr (in_years a b m)"
  by (auto simp: date_readable_def year_keep_def in_years_def release_year_def split: option.splits)

lemma filter_e_total:
  "\<forall>x \<in> set xs. p x = Inr (q x) \<Longrightarrow> filter_e p xs = Inr (filter q xs)"
  by (induction xs) simp_all

lemma py_int_2015: "py_int ''2015'' = Some 2015"
  by (simp add: py_int_def int_strip_def is_int_space_def is_digit_def digits_val_def digit_val_def)

lemma py_int_unkn: "py_int ''unkn'' = None"
  by (simp add: py_int_def int_strip_def is_int_space_def is_digit_def)

lemma py_int_separator: "py_int [CHR 0x1C, CHR ''2'', CHR ''1'', CHR ''5''] = None"
  by (simp add: py_int_def int_strip_def is_int_space_def is_digit_def)

lemma py_int_blank: "py_int '' 215'' = Some 215"
  by (simp add: py_int_def int_strip_def is_int_space_def is_digit_def digits_val_def digit_val_def)

text \<open>
  Claim C6, as the code has it. With a bound unset, \<^verbatim>\<open>None\<close> or 0, the filter keeps every
  movie and reads no date. With both
  bounds set and not zero, and every release date missing, empty or starting with four
  characters that \<^verbatim>\<open>int\<close> reads, the filter keeps exactly the movies whose year lies in the
  inclusive range, and drops the movies whose date is missing or empty. The examples of
  the specification.
\<close>

theorem year_filter_readable:
  "(ys = None \<or> ye = None \<or> ys = Some 0 \<or> ye = Some 0 \<longrightarrow> year_filter ys ye ms = Inr ms) \<and>
   (a \<noteq> 0 \<and> b \<noteq> 0 \<and> (\<forall>m \<in> set ms. date_readable m) \<longrightarrow>
      year_filter (Some a) (Some b) ms = Inr (filter (in_years a b) ms)) \<and>
   year_filter (Some 2010) (Some 2019) [dated_movie (Some ''2015-06-01'')] =
     Inr [dated_movie (Some ''2015-06-01'')] \<and>
   year_filter (Some 2020) (Some 2025) [dated_movie (Some ''2015-06-01'')] = Inr [] \<and>
   year_filter (Some 2010) (Some 2019) [dated_movie None] = Inr [] \<and>
   year_filter (Some 2010) (Some 2019) [dated_movie (Some [])] = Inr []"
proof -
  have A: "ys = None \<or> ye = None \<or> ys = Some 0 \<or> ye = Some 0 \<longrightarrow> year_filter ys ye ms = Inr ms"
    by (auto simp: year_filter_def split: option.splits)
  have B: "a \<noteq> 0 \<and> b \<noteq> 0 \<and> (\<forall>m \<in> set ms. date_readable m) \<longrightarrow>
      year_filter (Some a) (Some b) ms = Inr (filter (in_years a b) ms)"
    by (simp add: year_filter_def filter_e_total year_keep_readable)
  have k: "year_keep a' b' (dated_movie (Some ''2015-06-01'')) = Inr (a' \<le> 2015 \<and> 2015 \<le> b')" for a' b'
    by (simp add: year_keep_def dated_movie_def py_int_2015)
  have C: "year_filter (Some 2010) (Some 2019) [dated_movie (Some ''2015-06-01'')] =
     Inr [dated_movie (Some ''2015-06-01'')]"
    by (simp add: year_filter_def k)
  have D: "year_filter (Some 2020) (Some 2025) [dated_movie (Some ''2015-06-01'')] = Inr []"
    by (simp add: year_filter_def k)
  have E: "year_filter (Some 2010) (Some 2019) [dated_movie None] = Inr []"
    by (simp add: year_filter_def year_keep_def dated_movie_def)
  have F: "year_filter (Some 2010) (Some 2019) [dated_movie (Some [])] = Inr []"
    by (simp add: year_filter_def year_keep_def dated_movie_def)
  from A B C D E F show ?thesis by blast
qed

theorem year_filter_readable_witness:
  "date_readable (dated_movie (Some ''2015-06-01'')) \<and> date_readable (dated_movie None) \<and>
   year_filter (Some 2010) (Some 2019) [dated_movie (Some ''2015-06-01''), dated_movie None] =
     Inr [dated_movie (Some ''2015-06-01'')] \<and>
   year_filter None (Some 2019) [dated_movie None] = Inr [dated_movie None] \<and>
   year_filter (Some 0) (Some 2019) [dated_movie (Some ''2025-01-01''), dated_movie (Some ''unknown'')] =
     Inr [dated_movie (Some ''2025-01-01''), dated_movie (Some ''unknown'')] \<and>
   year_filter (Some 2010) (Some 0) [dated_movie None] = Inr [dated_movie None]"
proof -
  have r: "date_readable (dated_movie (Some ''2015-06-01''))" "date_readable (dated_movie None)"
    by (simp_all add: date_readable_def dated_movie_def py_int_2015)
  have i: "in_years 2010 2019 (dated_movie (Some ''2015-06-01''))" "\<not> in_years 2010 2019 (dated_movie None)"
    by (simp_all add: in_years_def release_year_def dated_movie_def py_int_2015)
  from year_filter_readable [of None "Some 2019" "[dated_movie None]" 0 0]
  have 1: "year_filter None (Some 2019) [dated_movie None] = Inr [dated_movie None]" by simp
  from year_filter_readable [of None None "[dated_movie (Some ''2015-06-01''), dated_movie None]" 2010 2019] r
  have 2: "year_filter (Some 2010) (Some 2019) [dated_movie (Some ''2015-06-01''), dated_movie None] =
     Inr [dated_movie (Some ''2015-06-01'')]"
    by (simp add: i)
  from year_filter_readable [of "Some 0" "Some 2019"
      "[dated_movie (Some ''2025-01-01''), dated_movie (Some ''unknown'')]" 0 0]
  have 3: "year_filter (Some 0) (Some 2019) [dated_movie (Some ''2025-01-01''), dated_movie (Some ''unknown'')] =
     Inr [dated_movie (Some ''2025-01-01''), dated_movie (Some ''unknown'')]"
    by simp
  from year_filter_readable [of "Some 2010" "Some 0" "[dated_movie None]" 0 0]
  have 4: "year_filter (Some 2010) (Some 0) [dated_movie None] = Inr [dated_movie None]" by simp
  from r 1 2 3 4 show ?thesis by blast
qed

text \<open>Against C6 as stated: a release date that \<^verbatim>\<open>int\<close> cannot read raises
  \<^verbatim>\<open>ValueError\<close> instead of dropping the movie, and a bound of 0 counts as unset.\<close>

theorem unparsable_date_raises:
  "year_filter (Some 2010) (Some 2019) [dated_movie (Some ''unknown'')] = Inl ValueError \<and>
   year_filter (Some 0) (Some 2019) [dated_movie (Some ''2025-01-01'')] =
     Inr [dated_movie (Some ''2025-01-01'')]"
  by (simp add: year_filter_def year_keep_def dated_movie_def py_int_unkn)

section \<open>The discovery engine: unmatched genre names\<close>

lemma resolve_known:
  "resolve_genre_ids cat (filter (known cat) gs) = resolve_genre_ids cat gs"
  by (induction gs) (auto simp: resolve_genre_ids_def known_def)

lemma base_params_known:
  "base_params api_key cat (f\<lparr>genres := filter (known cat) gs\<rparr>) =
   base_params api_key cat (f\<lparr>genres := gs\<rparr>)"
  by (simp add: base_params_def resolve_known)

lemma reverse_genre_map_known:
  assumes "reverse_genre_map cat i = Some g"
  shows "known cat g"
proof -
  from assms have "(i, g) \<in> set (rev (map (\<lambda>(k, v). (v, k)) cat))"
    unfolding reverse_genre_map_def by (rule map_of_SomeD)
  then have "(g, i) \<in> set cat" by auto
  then have "g \<in> fst ` set cat" by force
  then show ?thesis by (simp add: known_def map_of_eq_None_iff)
qed

lemma names_known:
  assumes "Some g \<in> set (movie_genre_names cat m)"
  shows "known cat g"
proof -
  from assms obtain i where "reverse_genre_map cat i = Some g"
    unfolding movie_genre_names_def by auto
  then show ?thesis by (rule reverse_genre_map_known)
qed

lemma genre_keep_known:
  "genre_keep cat (filter (known cat) gs) m = genre_keep cat gs m"
  unfolding genre_keep_def list_ex_iff by (auto dest: names_known)

lemma genre_filter_known:
  assumes "gs = [] \<or> (\<exists>g \<in> set gs. known cat g)"
  shows "genre_filter cat (filter (known cat) gs) xs = genre_filter cat gs xs"
proof (cases "gs = []")
  case True
  then show ?thesis by simp
next
  case False
  with assms have "filter (known cat) gs \<noteq> []" by (auto simp: filter_empty_conv)
  with False show ?thesis
    by (simp add: genre_filter_def genre_keep_known [abs_def])
qed

lemma steady_discover:
  assumes "year_start f = None"
  shows "discover_movies None action_catalog steady_fetch f =
         Inr (py_sort_desc pop_key (genre_filter action_catalog (genres f) [sample_movie]))"
proof -
  have "fetch_all None action_catalog steady_fetch f =
      (Inr ([] @ concat (map (\<lambda>p::int. if p = 1 then [sample_movie] else []) [1, 2, 3, 4, 5])),
       map (request_params (base_params None action_catalog f)) [1, 2, 3, 4, 5])"
    unfolding fetch_all_def by (rule fetch_pages_all_ok) (simp add: steady_fetch_page)
  then have f: "fst (fetch_all None action_catalog steady_fetch f) = Inr [sample_movie]" by simp
  show ?thesis
    unfolding discover_movies_def f by (simp add: bind_e_def year_filter_def assms)
qed

lemma sample_names: "movie_genre_names action_catalog sample_movie = [Some ''Action'']"
  by (simp add: movie_genre_names_def sample_movie_def reverse_genre_map_def action_catalog_def)

lemma known_action: "known action_catalog ''Action''" "\<not> known action_catalog ''Nope''"
  by (simp_all add: known_def action_catalog_def)

text \<open>
  Claim C7, as the code has it. When the genre list is empty or at least one requested name
  is in the catalog, \<^verbatim>\<open>discover_movies\<close> on the list gives the same outcome as on the list
  with the unmatched names removed.
\<close>

theorem unmatched_genres_dropped:
  assumes "gs = [] \<or> (\<exists>g \<in> set gs. known cat g)"
  shows "discover_movies api_key cat fetch (f\<lparr>genres := gs\<rparr>) =
         discover_movies api_key cat fetch (f\<lparr>genres := filter (known cat) gs\<rparr>)"
  by (simp add: discover_movies_def fetch_all_def base_params_known genre_filter_known [OF assms])

theorem unmatched_genres_dropped_witness:
  "known action_catalog ''Action'' \<and>
   discover_movies None action_catalog steady_fetch (empty_filters\<lparr>genres := [''Action'', ''Nope'']\<rparr>) =
   discover_movies None action_catalog steady_fetch (empty_filters\<lparr>genres := [''Action'']\<rparr>)"
proof -
  have h: "[''Action'', ''Nope''] = [] \<or> (\<exists>g \<in> set [''Action'', ''Nope'']. known action_catalog g)"
    by (simp add: known_action)
  from unmatched_genres_dropped [OF h, of None steady_fetch empty_filters]
  show ?thesis by (simp add: known_action)
qed

text \<open>Against C7 as stated: a request whose only genre name is unmatched returns nothing,
  while the same request with that name removed returns the movie of the provider.\<close>

theorem only_unmatched_genres_empty:
  "filter (known action_catalog) [''Nope''] = [] \<and>
   discover_movies None action_catalog steady_fetch (empty_filters\<lparr>genres := [''Nope'']\<rparr>) = Inr [] \<and>
   discover_movies None action_catalog steady_fetch (empty_filters\<lparr>genres := []\<rparr>) = Inr [sample_movie]"
proof -
  have y: "year_start (empty_filters\<lparr>genres := gs\<rparr>) = None" for gs
    by (simp add: empty_filters_def)
  have k: "\<not> genre_keep action_catalog [''Nope''] sample_movie"
    by (simp add: genre_keep_def sample_names)
  show ?thesis
    by (simp add: steady_discover [OF y] known_action genre_filter_def k py_sort_desc_def)
qed

section \<open>The query interpreter\<close>



















text \<open>The decoder and its fuel: a value decoded with some fuel is decoded with any longer
  fuel, and the plain output of the specification is rejected at its first character,
  whatever the fuel.\<close>

lemma fuel_mono:
  "(parse_value f s = Some (v, t) \<longrightarrow> parse_value (f @ g) s = Some (v, t))"
  "(parse_elems f acc s = Some (v, t) \<longrightarrow> parse_elems (f @ g) acc s = Some (v, t))"
  "(parse_members f acc' s = Some (v, t) \<longrightarrow> parse_members (f @ g) acc' s = Some (v, t))"
proof (induction f s and f acc s and f acc' s arbitrary: v t and v t and v t
    rule: parse_value_parse_elems_parse_members.induct)
  case (1 s)
  then show ?case by simp
next
  case (2 uu fuel s)
  then show ?case by (auto split: list.splits if_splits option.splits)
next
  case (3 acc s)
  then show ?case by simp
next
  case (4 uv fuel acc s)
  then show ?case by (auto split: option.splits if_splits prod.splits)
next
  case (5 acc s)
  then show ?case by simp
next
  case (6 uw fuel acc s)
  then show ?case by (auto split: list.splits option.splits if_splits prod.splits)
qed

lemma refusal_never_parses: "parse_value fuel refusal_text = None"
  by (cases fuel) (simp_all add: refusal_text_def dq_def parse_number_def is_digit_def)

lemma gpt_unshaped:
  "response_text result = Inl e \<Longrightarrow>
   gpt_parse_prompt loads (Inr result) = (Inr (JDict []), [parse_error_notice])"
  by (simp add: gpt_parse_prompt_def try_block_def bind_e_def)

lemma gpt_text:
  "response_text result = Inr (JStr t) \<Longrightarrow>
   gpt_parse_prompt loads (Inr result) =
     (case loads (gpt_json_text t) of
        None \<Rightarrow> (Inr (JDict []), [parse_error_notice])
      | Some v \<Rightarrow> (Inr v, []))"
  by (simp add: gpt_parse_prompt_def try_block_def bind_e_def split: option.splits)

lemma extract_not_string:
  "\<forall>t. x \<noteq> JStr t \<Longrightarrow> \<exists>e. extract_and_load loads x = Inl e"
  by (cases x) simp_all

lemma gpt_not_string:
  assumes "response_text result = Inr x" "\<forall>t. x \<noteq> JStr t"
  shows "gpt_parse_prompt loads (Inr result) = (Inr (JDict []), [parse_error_notice])"
proof -
  from extract_not_string [OF assms(2)] obtain e where "extract_and_load loads x = Inl e" by blast
  with assms(1) show ?thesis
    by (simp add: gpt_parse_prompt_def try_block_def bind_e_def)
qed

lemma gpt_returns: "\<exists>v ns. gpt_parse_prompt loads (Inr result) = (Inr v, ns)"
  by (simp add: gpt_parse_prompt_def split: sum.splits)

lemma response_text_text_response: "response_text (text_response t) = Inr (JStr t)"
  by (simp add: response_text_def text_response_def bind_e_def)

lemma refusal_plain: "gpt_json_text refusal_text = refusal_text"
  by (simp add: gpt_json_text_def refusal_text_def fence_json_def)

lemma refusal_loads: "json_loads refusal_text = None"
  unfolding refusal_text_def by code_simp


lemma comedy_loads: "json_loads comedy_body = Some comedy_parsed"
  unfolding comedy_body_def comedy_parsed_def by code_simp


text \<open>
  Claim C4, as the code has it. Once the endpoint has answered and its body is decoded,
  \<^verbatim>\<open>gpt_parse_prompt\<close> returns: a response without \<^verbatim>\<open>content[0].text\<close>, a text that is not a
  string, or a text whose extract is not JSON, gives the empty dict and the error notice;
  a text whose extract is JSON gives the decoded value and no notice. An exception of the
  endpoint call or of decoding its body passes to the caller. The plain output of the
  specification gives the empty dict and the notice.
\<close>

theorem gpt_parse_prompt_recovers:
  "(\<exists>v ns. gpt_parse_prompt loads (Inr result) = (Inr v, ns)) \<and>
   (response_text result = Inl e \<longrightarrow>
      gpt_parse_prompt loads (Inr result) = (Inr (JDict []), [parse_error_notice])) \<and>
   (response_text result = Inr x \<and> (\<forall>t. x \<noteq> JStr t) \<longrightarrow>
      gpt_parse_prompt loads (Inr result) = (Inr (JDict []), [parse_error_notice])) \<and>
   (response_text result = Inr (JStr t) \<and> loads (gpt_json_text t) = None \<longrightarrow>
      gpt_parse_prompt loads (Inr result) = (Inr (JDict []), [parse_error_notice])) \<and>
   (response_text result = Inr (JStr t) \<and> loads (gpt_json_text t) = Some v \<longrightarrow>
      gpt_parse_prompt loads (Inr result) = (Inr v, [])) \<and>
   gpt_parse_prompt loads (Inl e') = (Inl e', []) \<and>
   gpt_parse_prompt json_loads (Inr (text_response refusal_text)) =
     (Inr (JDict []), [parse_error_notice])"
proof -
  have R: "gpt_parse_prompt json_loads (Inr (text_response refusal_text)) =
     (Inr (JDict []), [parse_error_notice])"
    by (simp add: gpt_text [OF response_text_text_response] refusal_plain refusal_loads)
  have P: "gpt_parse_prompt loads (Inl e') = (Inl e', [])"
    by (simp add: gpt_parse_prompt_def)
  show ?thesis
    using gpt_returns [of loads result] gpt_unshaped [of result e loads]
      gpt_not_string [of result x loads] gpt_text [of result t loads] R P
    by auto
qed

theorem gpt_parse_prompt_recovers_witness:
  "response_text (JDict []) = Inl KeyError \<and>
   gpt_parse_prompt json_loads (Inr (JDict [])) = (Inr (JDict []), [parse_error_notice]) \<and>
   response_text (text_response comedy_body) = Inr (JStr comedy_body) \<and>
   gpt_parse_prompt json_loads (Inr (text_response comedy_body)) = (Inr comedy_parsed, [])"
proof -
  have k: "response_text (JDict []) = Inl KeyError"
    by (simp add: response_text_def bind_e_def)
  have p: "gpt_json_text comedy_body = comedy_body"
    unfolding comedy_body_def by code_simp
  note t = response_text_text_response [of comedy_body]
  from gpt_parse_prompt_recovers [of json_loads "JDict []" KeyError JNull "[]" JNull KeyError] k
  have 1: "gpt_parse_prompt json_loads (Inr (JDict [])) = (Inr (JDict []), [parse_error_notice])"
    by simp
  from gpt_parse_prompt_recovers [of json_loads "text_response comedy_body" KeyError JNull
      comedy_body comedy_parsed KeyError] t
  have 2: "gpt_parse_prompt json_loads (Inr (text_response comedy_body)) = (Inr comedy_parsed, [])"
    by (simp add: p comedy_loads)
  from k t 1 2 show ?thesis by blast
qed

text \<open>Against C4 as stated: a provider error leaves \<^verbatim>\<open>gpt_parse_prompt\<close> as an exception,
  with no notice; and a text that is JSON but not an object is returned as it is.\<close>

theorem provider_error_propagates:
  "gpt_parse_prompt json_loads (Inl ProviderError) = (Inl ProviderError, []) \<and>
   gpt_parse_prompt json_loads (Inr (text_response ''[1]'')) = (Inr (JList [JInt 1]), [])"
proof -
  have "json_loads (gpt_json_text ''[1]'') = Some (JList [JInt 1])" by code_simp
  then show ?thesis
    by (simp add: gpt_text [OF response_text_text_response]) (simp add: gpt_parse_prompt_def)
qed




end
